theory Spec2Isabelle
  imports Main "HOL-Library.Word" "HOL-Library.Char_ord" "HOL-Library.List_Lexorder"
begin

unbundle bit_operations_syntax

section \<open>Go values used by internal/provider/config.go\<close>

text \<open>
  A Go string is a sequence of bytes: \<^typ>\<open>string\<close> (a list of 8-bit characters).
  A \<^verbatim>\<open>[]string\<close> is a slice header (backing array and length) over a shared backing
  array, so two headers copied from one another alias the same elements. The backing
  arrays live in a store indexed by address; \<open>NilSlice\<close> is the nil slice. No slice of
  this file is ever re-sliced, so a header carries no offset and its capacity is the
  length of its array.
\<close>

datatype slice = NilSlice | Slice nat nat

type_synonym arrays = "nat \<Rightarrow> string list"

fun len :: "slice \<Rightarrow> nat" where
  "len NilSlice = 0"
| "len (Slice a n) = n"

text \<open>The elements a slice header denotes in a store.\<close>

fun elems :: "arrays \<Rightarrow> slice \<Rightarrow> string list" where
  "elems h NilSlice = []"
| "elems h (Slice a n) = take n (h a)"

text \<open>
  The built-in \<^verbatim>\<open>copy(dst, src)\<close>: it copies \<open>min (len dst) (len src)\<close> elements into the
  backing array of \<open>dst\<close> and never grows \<open>dst\<close>. The source elements are read before
  any is written (overlapping slices are allowed).
\<close>

fun copy :: "arrays \<Rightarrow> slice \<Rightarrow> slice \<Rightarrow> arrays" where
  "copy h NilSlice src = h"
| "copy h (Slice a n) src =
     (let xs = elems h src; k = min n (length xs)
      in h(a := take k xs @ drop k (h a)))"

text \<open>\<^verbatim>\<open>sort.Strings\<close>: sorts the elements of a slice in place, in ascending byte-wise
  lexicographic order.\<close>

fun sort_Strings :: "arrays \<Rightarrow> slice \<Rightarrow> arrays" where
  "sort_Strings h NilSlice = h"
| "sort_Strings h (Slice a n) = h(a := sort (take n (h a)) @ drop n (h a))"

text \<open>\<^verbatim>\<open>strings.Join(elems, sep)\<close>.\<close>

fun Join :: "string list \<Rightarrow> string \<Rightarrow> string" where
  "Join [] sep = []"
| "Join [x] sep = x"
| "Join (x # y # ys) sep = x @ sep @ Join (y # ys) sep"

text \<open>\<^verbatim>\<open>strings.HasPrefix(s, prefix)\<close>.\<close>

definition HasPrefix :: "string \<Rightarrow> string \<Rightarrow> bool" where
  "HasPrefix s p = (length p \<le> length s \<and> take (length p) s = p)"

text \<open>A Go \<^verbatim>\<open>error\<close> value, carried as its message.\<close>

datatype error = Error (message: string)

section \<open>hash/fnv: the 64-bit FNV-1 hash returned by \<^verbatim>\<open>fnv.New64()\<close>\<close>

definition offset64 :: "64 word" where
  "offset64 = 14695981039346656037"

definition prime64 :: "64 word" where
  "prime64 = 1099511628211"

definition New64 :: "64 word" where
  "New64 = offset64"

text \<open>
  \<^verbatim>\<open>Write\<close> of FNV-1: for every byte, multiply by the prime (wrapping at 64 bits), then
  xor the byte in. It returns the new state and the error of the \<^verbatim>\<open>io.Writer\<close>
  signature, which this writer never sets.
\<close>

definition Write :: "64 word \<Rightarrow> string \<Rightarrow> 64 word \<times> error option" where
  "Write s bs = (foldl (\<lambda>hash c. (hash * prime64) XOR of_char c) s bs, None)"

definition Sum64 :: "64 word \<Rightarrow> 64 word" where
  "Sum64 s = s"

section \<open>Config and its fingerprint\<close>

record Config =
  Host :: string
  SSHOpts :: slice
  Ca :: string
  Cert :: string
  Key :: string
  CertPath :: string

text \<open>
  \<^verbatim>\<open>Config.Hash\<close>. The local \<^verbatim>\<open>var SSHOpts []string\<close> is the nil slice; the options of the
  configuration are copied into it with the built-in \<^verbatim>\<open>copy\<close>, it is sorted, and the
  six fields are joined with \<^verbatim>\<open>|\<close> and written to the hash. A failing write panics:
  the result is \<open>None\<close> then.
\<close>

definition Hash :: "arrays \<Rightarrow> Config \<Rightarrow> 64 word option" where
  "Hash h c =
     (let SSHOpts' = NilSlice;
          h1 = copy h SSHOpts' (SSHOpts c);
          h2 = sort_Strings h1 SSHOpts';
          (hash, err) = Write New64 (Join [Host c, Ca c, Cert c, Key c, CertPath c,
                                           Join (elems h2 SSHOpts') ''|''] ''|'')
      in case err of Some e \<Rightarrow> None | None \<Rightarrow> Some (Sum64 hash))"

text \<open>
  The fingerprint as section 4.2 of the specification words it: the hash of the five
  scalar fields and the pipe-joined sorted copy of the SSH options, joined with \<^verbatim>\<open>|\<close>.
\<close>

definition Hash_spec :: "arrays \<Rightarrow> Config \<Rightarrow> 64 word" where
  "Hash_spec h c =
     Sum64 (fst (Write New64 (Join [Host c, Ca c, Cert c, Key c, CertPath c,
                                    Join (sort (elems h (SSHOpts c))) ''|''] ''|'')))"

section \<open>The libraries the file calls\<close>

text \<open>
  crypto/tls, crypto/x509, net/http, path/filepath, docker/cli's connhelper and the
  Docker client are libraries, not code of this repository. Their data is kept as far
  as config.go builds or reads it; their functions are parameters, collected in \<open>env\<close>.
\<close>

datatype Certificate = Certificate string

datatype CertPool = CertPool "string list"

record tls_Config =
  Certificates :: "Certificate list"
  InsecureSkipVerify :: bool
  RootCAs :: "CertPool option"

text \<open>\<^verbatim>\<open>time.Duration\<close> counts nanoseconds.\<close>

definition Second :: int where
  "Second = 1000000000"

record net_Dialer =
  Timeout :: int
  KeepAlive :: int

datatype proxy_func = NoProxy | ProxyFromEnvironment

record http_Transport =
  Proxy :: proxy_func
  DialContext :: "net_Dialer option"
  MaxIdleConns :: int
  IdleConnTimeout :: int
  TLSHandshakeTimeout :: int
  ExpectContinueTimeout :: int
  MaxIdleConnsPerHost :: int
  DisableKeepAlives :: bool
  TLSClientConfig :: "tls_Config option"

record http_Client =
  Transport :: http_Transport

text \<open>The dial function of an SSH connection helper, and a Docker client handle: both
  opaque.\<close>

datatype dial_func = DialFunc nat

record ConnectionHelper =
  helper_Host :: string
  helper_Dialer :: dial_func

datatype client = Client nat

datatype client_opt =
    WithHTTPClient http_Client
  | WithHost string
  | WithAPIVersionNegotiation
  | WithTLSClientConfig string string string
  | WithDialContext dial_func

text \<open>
  What \<^verbatim>\<open>Ping\<close> does on a receiver (\<open>None\<close> is the nil pointer): it returns no error, it
  returns an error, or the call panics.
\<close>

datatype ping_result = PingOK | PingFailed error | PingPanic

record env =
  X509KeyPair :: "string \<Rightarrow> string \<Rightarrow> error + Certificate"
  AppendCertsFromPEM :: "CertPool \<Rightarrow> string \<Rightarrow> CertPool \<times> bool"
  GOMAXPROCS :: int
  filepath_Join :: "string \<Rightarrow> string \<Rightarrow> string"
  GetConnectionHelper :: "string \<Rightarrow> error + ConnectionHelper option"
  GetConnectionHelperWithSSHOpts :: "string \<Rightarrow> string list \<Rightarrow> error + ConnectionHelper option"
  NewClientWithOpts :: "client_opt list \<Rightarrow> error + client"
  Ping :: "client option \<Rightarrow> ping_result"

section \<open>The TLS material loader and its transport\<close>

text \<open>\<^verbatim>\<open>defaultPooledTransport\<close>.\<close>

definition defaultPooledTransport :: "env \<Rightarrow> http_Transport" where
  "defaultPooledTransport e =
     \<lparr>Proxy = ProxyFromEnvironment,
      DialContext = Some \<lparr>Timeout = 30 * Second, KeepAlive = 30 * Second\<rparr>,
      MaxIdleConns = 100,
      IdleConnTimeout = 90 * Second,
      TLSHandshakeTimeout = 10 * Second,
      ExpectContinueTimeout = 1 * Second,
      MaxIdleConnsPerHost = GOMAXPROCS e + 1,
      DisableKeepAlives = False,
      TLSClientConfig = None\<rparr>"

text \<open>\<^verbatim>\<open>defaultTransport\<close>: the pooled transport with keep-alive and idle connections
  disabled.\<close>

definition defaultTransport :: "env \<Rightarrow> http_Transport" where
  "defaultTransport e =
     (let transport = defaultPooledTransport e;
          transport = transport\<lparr>DisableKeepAlives := True\<rparr>;
          transport = transport\<lparr>MaxIdleConnsPerHost := - 1\<rparr>
      in transport)"

text \<open>A \<^verbatim>\<open>[]byte\<close> argument: \<open>None\<close> is nil. \<^verbatim>\<open>[]byte(s)\<close> of a string is never nil.\<close>

type_synonym bytes = "string option"

fun blen :: "bytes \<Rightarrow> nat" where
  "blen None = 0"
| "blen (Some bs) = length bs"

definition bytes_of :: "string \<Rightarrow> bytes" where
  "bytes_of s = Some s"

definition NewCertPool :: CertPool where
  "NewCertPool = CertPool []"

text \<open>\<^verbatim>\<open>buildHTTPClientFromBytes\<close>.\<close>

definition buildHTTPClientFromBytes :: "env \<Rightarrow> bytes \<Rightarrow> bytes \<Rightarrow> bytes \<Rightarrow> error + http_Client" where
  "buildHTTPClientFromBytes e caPEMCert certPEMBlock keyPEMBlock =
     (let tlsConfig = \<lparr>Certificates = [], InsecureSkipVerify = False, RootCAs = None\<rparr>;
          r1 = (case (certPEMBlock, keyPEMBlock) of
                  (Some cert, Some key) \<Rightarrow>
                    (case X509KeyPair e cert key of
                       Inl err \<Rightarrow> Inl err
                     | Inr tlsCert \<Rightarrow> Inr (tlsConfig\<lparr>Certificates := [tlsCert]\<rparr>))
                | _ \<Rightarrow> Inr tlsConfig)
      in case r1 of
           Inl err \<Rightarrow> Inl err
         | Inr tlsConfig \<Rightarrow>
             (let r2 = (if blen caPEMCert = 0
                        then Inr (tlsConfig\<lparr>InsecureSkipVerify := True\<rparr>)
                        else (case AppendCertsFromPEM e NewCertPool (the caPEMCert) of
                                (caPool, ok) \<Rightarrow>
                                  if \<not> ok then Inl (Error ''could not add RootCA pem'')
                                  else Inr (tlsConfig\<lparr>RootCAs := Some caPool\<rparr>)))
              in case r2 of
                   Inl err \<Rightarrow> Inl err
                 | Inr tlsConfig \<Rightarrow>
                     (let tr = defaultTransport e;
                          tr = tr\<lparr>TLSClientConfig := Some tlsConfig\<rparr>
                      in Inr \<lparr>Transport = tr\<rparr>)))"

section \<open>The provider state\<close>

text \<open>
  The calls into the libraries that resolve a helper, construct a client or reach the
  daemon are recorded in the order they happen.
\<close>

datatype event =
    CallGetConnectionHelper string
  | CallGetConnectionHelperWithSSHOpts string "string list"
  | CallNewClientWithOpts "client_opt list"
  | CallPing "client option"

text \<open>
  \<open>DefaultConfig\<close> and \<open>clientCache\<close> are the fields of \<^verbatim>\<open>ProviderConfig\<close> that config.go
  uses (the receiver and its \<^verbatim>\<open>DefaultConfig\<close> pointer are taken to be non-nil; a cached
  \<^verbatim>\<open>*client.Client\<close> may be the nil pointer, \<open>None\<close>). \<open>heap\<close> holds the backing arrays of
  all \<^verbatim>\<open>[]string\<close> values, \<open>next_array\<close> is the next address \<^verbatim>\<open>make\<close> hands out, and
  \<open>events\<close> is the record of library calls.
\<close>

record world =
  DefaultConfig :: Config
  clientCache :: "64 word \<rightharpoonup> client option"
  heap :: arrays
  next_array :: nat
  events :: "event list"

text \<open>\<^verbatim>\<open>sync.Map\<close>, run by one goroutine at a time.\<close>

definition Load :: "('k \<rightharpoonup> 'v) \<Rightarrow> 'k \<Rightarrow> 'v option" where
  "Load m k = m k"

definition LoadOrStore :: "('k \<rightharpoonup> 'v) \<Rightarrow> 'k \<Rightarrow> 'v \<Rightarrow> ('k \<rightharpoonup> 'v)" where
  "LoadOrStore m k v = (case m k of Some actual \<Rightarrow> m | None \<Rightarrow> m(k \<mapsto> v))"

text \<open>\<^verbatim>\<open>make([]string, n)\<close>: a fresh backing array of \<open>n\<close> empty strings.\<close>

definition make_strings :: "nat \<Rightarrow> world \<Rightarrow> slice \<times> world" where
  "make_strings n w =
     (Slice (next_array w) n,
      w\<lparr>heap := (heap w)(next_array w := replicate n []), next_array := Suc (next_array w)\<rparr>)"

section \<open>The configuration resolver\<close>

text \<open>
  The override payload: \<^verbatim>\<open>d.GetOk("override")\<close> yields the list of override blocks of
  the resource (not ok when the list is empty), each block with the six fields of the
  schema.
\<close>

record override_block =
  host :: string
  ssh_opts :: "string list"
  ca_material :: string
  cert_material :: string
  key_material :: string
  cert_path :: string

record ResourceData =
  override :: "override_block list"

text \<open>The loop \<^verbatim>\<open>for i, s := range SSHOptsI { SSHOpts[i] = s.(string) }\<close> on the array at
  address \<open>a\<close>, from index \<open>i\<close> on.\<close>

fun assign_all :: "arrays \<Rightarrow> nat \<Rightarrow> nat \<Rightarrow> string list \<Rightarrow> arrays" where
  "assign_all h a i [] = h"
| "assign_all h a i (s # ss) = assign_all (h(a := (h a)[i := s])) a (Suc i) ss"

text \<open>\<^verbatim>\<open>NewConfig\<close>.\<close>

definition NewConfig :: "ResourceData \<Rightarrow> world \<Rightarrow> Config \<times> world" where
  "NewConfig d w =
     (let (s0, w1) = make_strings 0 w;
          config = \<lparr>Host = [], SSHOpts = s0, Ca = [], Cert = [], Key = [], CertPath = []\<rparr>
      in case override d of
           [] \<Rightarrow> (config, w1)
         | ov # _ \<Rightarrow>
             (let SSHOptsI = ssh_opts ov;
                  (SSHOpts', w2) = make_strings (length SSHOptsI) w1;
                  w3 = (case SSHOpts' of
                          NilSlice \<Rightarrow> w2
                        | Slice a n \<Rightarrow> w2\<lparr>heap := assign_all (heap w2) a 0 SSHOptsI\<rparr>)
              in (\<lparr>Host = host ov, SSHOpts = SSHOpts', Ca = ca_material ov,
                   Cert = cert_material ov, Key = key_material ov,
                   CertPath = cert_path ov\<rparr>, w3)))"

text \<open>
  \<^verbatim>\<open>ProviderConfig.getConfig\<close>; \<open>d = None\<close> is the nil \<^verbatim>\<open>*schema.ResourceData\<close>. The struct
  copy \<^verbatim>\<open>config := *c.DefaultConfig\<close> copies the slice header of \<^verbatim>\<open>SSHOpts\<close>, not its
  backing array.
\<close>

definition getConfig :: "ResourceData option \<Rightarrow> world \<Rightarrow> Config \<times> world" where
  "getConfig d w =
     (let config = DefaultConfig w;
          w = w\<lparr>heap := copy (heap w) (SSHOpts config) (SSHOpts (DefaultConfig w))\<rparr>
      in case d of
           None \<Rightarrow> (config, w)
         | Some rd \<Rightarrow>
             (let (resourceConfig, w) = NewConfig rd w;
                  config = (if Host resourceConfig \<noteq> []
                            then config\<lparr>Host := Host resourceConfig\<rparr> else config);
                  w = (if len (SSHOpts resourceConfig) \<noteq> 0
                       then w\<lparr>heap := copy (heap w) (SSHOpts config) (SSHOpts resourceConfig)\<rparr>
                       else w);
                  config = (if Ca resourceConfig \<noteq> []
                            then config\<lparr>Ca := Ca resourceConfig\<rparr> else config);
                  config = (if Cert resourceConfig \<noteq> []
                            then config\<lparr>Cert := Cert resourceConfig\<rparr> else config);
                  config = (if Key resourceConfig \<noteq> []
                            then config\<lparr>Key := Key resourceConfig\<rparr> else config);
                  config = (if CertPath resourceConfig \<noteq> []
                            then config\<lparr>CertPath := CertPath resourceConfig\<rparr> else config)
              in (config, w)))"

section \<open>The connection strategy selector and the client cache\<close>

text \<open>
  A call of \<^verbatim>\<open>NewClient\<close> or \<^verbatim>\<open>MakeClient\<close> returns its pair \<^verbatim>\<open>(*client.Client, error)\<close>
  or panics.
\<close>

datatype outcome = Return "client option" "error option" | Panic

text \<open>\<^verbatim>\<open>client.NewClientWithOpts(opts...)\<close>: the client and no error, or nil and the
  error.\<close>

definition call_NewClientWithOpts ::
  "env \<Rightarrow> client_opt list \<Rightarrow> world \<Rightarrow> (client option \<times> error option) \<times> world" where
  "call_NewClientWithOpts e opts w =
     ((case NewClientWithOpts e opts of
         Inl err \<Rightarrow> (None, Some err)
       | Inr cl \<Rightarrow> (Some cl, None)),
      w\<lparr>events := events w @ [CallNewClientWithOpts opts]\<rparr>)"

text \<open>\<^verbatim>\<open>Config.NewClient\<close>.\<close>

definition NewClient :: "env \<Rightarrow> Config \<Rightarrow> world \<Rightarrow> outcome \<times> world" where
  "NewClient e c w =
     (if Cert c \<noteq> [] \<or> Key c \<noteq> [] then
        if Cert c = [] \<or> Key c = [] then
          (Return None (Some (Error ''cert_material, and key_material must be specified'')), w)
        else if CertPath c \<noteq> [] then
          (Return None (Some (Error ''cert_path must not be specified'')), w)
        else
          (case buildHTTPClientFromBytes e (bytes_of (Ca c)) (bytes_of (Cert c)) (bytes_of (Key c)) of
             Inl err \<Rightarrow> (Return None (Some err), w)
           | Inr httpClient \<Rightarrow>
               (case call_NewClientWithOpts e
                       [WithHTTPClient httpClient, WithHost (Host c), WithAPIVersionNegotiation] w of
                  ((cl, err), w) \<Rightarrow> (Return cl err, w)))
      else if CertPath c \<noteq> [] then
        (let ca = filepath_Join e (CertPath c) ''ca.pem'';
             cert = filepath_Join e (CertPath c) ''cert.pem'';
             key = filepath_Join e (CertPath c) ''key.pem''
         in case call_NewClientWithOpts e
                   [WithHost (Host c), WithTLSClientConfig ca cert key, WithAPIVersionNegotiation] w of
              ((cl, err), w) \<Rightarrow> (Return cl err, w))
      else
        (let w = w\<lparr>events := events w @
                    [CallGetConnectionHelperWithSSHOpts (Host c) (elems (heap w) (SSHOpts c))]\<rparr>
         in case GetConnectionHelperWithSSHOpts e (Host c) (elems (heap w) (SSHOpts c)) of
              Inl err \<Rightarrow> (Return None (Some err), w)
            | Inr (Some helper) \<Rightarrow>
                (case call_NewClientWithOpts e
                        [WithHost (helper_Host helper), WithDialContext (helper_Dialer helper),
                         WithAPIVersionNegotiation] w of
                   ((cl, err), w) \<Rightarrow> (Return cl err, w))
            | Inr None \<Rightarrow>
                (case call_NewClientWithOpts e
                        [WithHost (Host c), WithAPIVersionNegotiation] w of
                   ((cl, err), w) \<Rightarrow> (Return cl err, w))))"

text \<open>
  Lines 266 to 316 of \<^verbatim>\<open>MakeClient\<close>, the chain of branches that sets \<^verbatim>\<open>dockerClient\<close> and
  the function's \<^verbatim>\<open>err\<close>: it leaves the function with an error (\<open>EarlyReturn\<close>), or
  falls out of the chain with the two variables (\<open>Built dockerClient err\<close>). In the
  first and third branch \<^verbatim>\<open>err\<close> is a new variable of the inner scope and the error of
  \<^verbatim>\<open>NewClientWithOpts\<close> is dropped, so the function's \<^verbatim>\<open>err\<close> stays nil there.
\<close>

datatype built = EarlyReturn error | Built "client option" "error option"

definition build_client :: "env \<Rightarrow> Config \<Rightarrow> world \<Rightarrow> built \<times> world" where
  "build_client e config w =
     (if Cert config \<noteq> [] \<or> Key config \<noteq> [] then
        if Cert config = [] \<or> Key config = [] then
          (EarlyReturn (Error ''cert_material, and key_material must be specified''), w)
        else if CertPath config \<noteq> [] then
          (EarlyReturn (Error ''cert_path must not be specified''), w)
        else
          (case buildHTTPClientFromBytes e (bytes_of (Ca config)) (bytes_of (Cert config))
                  (bytes_of (Key config)) of
             Inl err \<Rightarrow> (EarlyReturn err, w)
           | Inr httpClient \<Rightarrow>
               (case call_NewClientWithOpts e
                       [WithHTTPClient httpClient, WithHost (Host config),
                        WithAPIVersionNegotiation] w of
                  ((dockerClient, _), w) \<Rightarrow> (Built dockerClient None, w)))
      else if CertPath config \<noteq> [] then
        (let ca = filepath_Join e (CertPath config) ''ca.pem'';
             cert = filepath_Join e (CertPath config) ''cert.pem'';
             key = filepath_Join e (CertPath config) ''key.pem''
         in case call_NewClientWithOpts e
                   [WithHost (Host config), WithTLSClientConfig ca cert key,
                    WithAPIVersionNegotiation] w of
              ((dockerClient, err), w) \<Rightarrow> (Built dockerClient err, w))
      else if HasPrefix (Host config) ''ssh://'' then
        (let w = w\<lparr>events := events w @ [CallGetConnectionHelper (Host config)]\<rparr>
         in case GetConnectionHelper e (Host config) of
              Inl err \<Rightarrow> (EarlyReturn err, w)
            | Inr (Some helper) \<Rightarrow>
                (case call_NewClientWithOpts e
                        [WithHost (helper_Host helper), WithDialContext (helper_Dialer helper),
                         WithAPIVersionNegotiation] w of
                   ((dockerClient, _), w) \<Rightarrow> (Built dockerClient None, w))
            | Inr None \<Rightarrow> (Built None None, w))
      else
        (case call_NewClientWithOpts e [WithHost (Host config), WithAPIVersionNegotiation] w of
           ((dockerClient, err), w) \<Rightarrow> (Built dockerClient err, w)))"

text \<open>
  \<^verbatim>\<open>ProviderConfig.MakeClient\<close>: resolve the configuration, hash it, return the cached
  entry if there is one; otherwise run the chain of branches, store the client under the
  hash and ping the daemon.
\<close>

definition MakeClient :: "env \<Rightarrow> ResourceData option \<Rightarrow> world \<Rightarrow> outcome \<times> world" where
  "MakeClient e d w =
     (case getConfig d w of
        (config, w) \<Rightarrow>
          (case Hash (heap w) config of
             None \<Rightarrow> (Panic, w)
           | Some configHash \<Rightarrow>
               (case Load (clientCache w) configHash of
                  Some cached \<Rightarrow> (Return cached None, w)
                | None \<Rightarrow>
                    (case build_client e config w of
                       (EarlyReturn err, w) \<Rightarrow> (Return None (Some err), w)
                     | (Built dockerClient (Some err), w) \<Rightarrow> (Return None (Some err), w)
                     | (Built dockerClient None, w) \<Rightarrow>
                         (let w = w\<lparr>clientCache :=
                                     LoadOrStore (clientCache w) configHash dockerClient\<rparr>;
                              w = w\<lparr>events := events w @ [CallPing dockerClient]\<rparr>
                          in case Ping e dockerClient of
                               PingPanic \<Rightarrow> (Panic, w)
                             | PingFailed err \<Rightarrow>
                                 (Return None
                                    (Some (Error (''error pinging Docker server: '' @ message err))), w)
                             | PingOK \<Rightarrow> (Return dockerClient None, w))))))"

text \<open>The fingerprint \<^verbatim>\<open>MakeClient\<close> computes for an override payload: the hash of the
  resolved configuration.\<close>

definition configHash_of :: "ResourceData option \<Rightarrow> world \<Rightarrow> 64 word option" where
  "configHash_of d w = (case getConfig d w of (config, w') \<Rightarrow> Hash (heap w') config)"

section \<open>Sample inputs\<close>

text \<open>
  A provider that has just been configured: the default configuration with its SSH
  options in the backing array at address 0, an empty client cache, no library call
  made yet.
\<close>

definition initial_world ::
  "string \<Rightarrow> string list \<Rightarrow> string \<Rightarrow> string \<Rightarrow> string \<Rightarrow> string \<Rightarrow> world" where
  "initial_world h opts ca cert key path =
     \<lparr>DefaultConfig = \<lparr>Host = h, SSHOpts = Slice 0 (length opts), Ca = ca, Cert = cert,
                         Key = key, CertPath = path\<rparr>,
      clientCache = Map.empty,
      heap = (\<lambda>a. [])(0 := opts),
      next_array = 1,
      events = []\<rparr>"

text \<open>An override payload with one block that sets only the SSH options.\<close>

definition ssh_override :: "string list \<Rightarrow> ResourceData" where
  "ssh_override opts =
     \<lparr>override = [\<lparr>host = [], ssh_opts = opts, ca_material = [], cert_material = [],
                    key_material = [], cert_path = []\<rparr>]\<rparr>"

text \<open>
  Libraries for the samples: every key pair parses, no CA bundle does, no connection
  helper is found, every client is constructed (as handle 1), and the daemon answers the
  ping of a client (a nil receiver panics).
\<close>

definition sample_env :: env where
  "sample_env =
     \<lparr>X509KeyPair = (\<lambda>cert key. Inr (Certificate cert)),
      AppendCertsFromPEM = (\<lambda>pool pem. (pool, False)),
      GOMAXPROCS = 4,
      filepath_Join = (\<lambda>dir file. dir @ ''/'' @ file),
      GetConnectionHelper = (\<lambda>h. Inr None),
      GetConnectionHelperWithSSHOpts = (\<lambda>h opts. Inr None),
      NewClientWithOpts = (\<lambda>opts. Inr (Client 1)),
      Ping = (\<lambda>cl. case cl of None \<Rightarrow> PingPanic | Some c \<Rightarrow> PingOK)\<rparr>"

text \<open>The same libraries with a daemon that cannot be reached: every ping fails.\<close>

definition unreachable_env :: env where
  "unreachable_env = sample_env\<lparr>Ping := (\<lambda>cl. PingFailed (Error ''daemon unreachable''))\<rparr>"

text \<open>The same libraries where no client can be constructed and every ping panics.\<close>

definition broken_env :: env where
  "broken_env = sample_env\<lparr>NewClientWithOpts := (\<lambda>opts. Inl (Error ''no client'')),
                           Ping := (\<lambda>cl. PingPanic)\<rparr>"

text \<open>The same libraries where an SSH connection helper is found; the dial function of
  the helper resolved with SSH options is numbered by how many options it was given.\<close>

definition ssh_env :: env where
  "ssh_env = sample_env
     \<lparr>GetConnectionHelper :=
        (\<lambda>h. Inr (Some \<lparr>helper_Host = ''http://docker.example.com'',
                         helper_Dialer = DialFunc 0\<rparr>)),
      GetConnectionHelperWithSSHOpts :=
        (\<lambda>h opts. Inr (Some \<lparr>helper_Host = ''http://docker.example.com'',
                              helper_Dialer = DialFunc (length opts)\<rparr>))\<rparr>"

section \<open>The fingerprint\<close>

lemmas fnv_defs = Write_def Sum64_def New64_def offset64_def prime64_def

lemmas run_defs =
  MakeClient_def getConfig_def NewConfig_def make_strings_def Hash_def build_client_def
  call_NewClientWithOpts_def Load_def LoadOrStore_def HasPrefix_def configHash_of_def
  initial_world_def sample_env_def Let_def fnv_defs

lemma Hash_eq:
  "Hash h c = Some (fst (Write New64 (Join [Host c, Ca c, Cert c, Key c, CertPath c, []] ''|'')))"
  by (simp add: Hash_def Write_def Sum64_def)

text \<open>The write to the hash never fails, so \<^verbatim>\<open>Hash\<close> never panics.\<close>

lemma Hash_returns: "\<exists>v. Hash h c = Some v"
  by (simp add: Hash_eq)

text \<open>
  Claim C10. Two configurations that agree on Host, Ca, Cert, Key and CertPath have the
  same hash, whatever their SSHOpts slices and whatever the backing arrays hold: the SSH
  options never reach the hashed bytes. \<^verbatim>\<open>MakeClient\<close> uses this value as the key of the
  client cache.
\<close>

theorem Hash_ignores_SSHOpts:
  assumes "Host c1 = Host c2" and "Ca c1 = Ca c2" and "Cert c1 = Cert c2"
    and "Key c1 = Key c2" and "CertPath c1 = CertPath c2"
  shows "Hash h1 c1 = Hash h2 c2 \<and> Hash h1 c1 \<noteq> None"
  using assms by (simp add: Hash_eq)

theorem Hash_ignores_SSHOpts_witness:
  "elems (heap (initial_world ''h'' [''a''] [] [] [] []))
         (SSHOpts (DefaultConfig (initial_world ''h'' [''a''] [] [] [] [])))
     \<noteq> elems (heap (initial_world ''h'' [''b'', ''c''] [] [] [] []))
         (SSHOpts (DefaultConfig (initial_world ''h'' [''b'', ''c''] [] [] [] [])))
   \<and> Hash (heap (initial_world ''h'' [''a''] [] [] [] []))
          (DefaultConfig (initial_world ''h'' [''a''] [] [] [] []))
     = Hash (heap (initial_world ''h'' [''b'', ''c''] [] [] [] []))
          (DefaultConfig (initial_world ''h'' [''b'', ''c''] [] [] [] []))"
  using Hash_ignores_SSHOpts
          [of "DefaultConfig (initial_world ''h'' [''a''] [] [] [] [])"
              "DefaultConfig (initial_world ''h'' [''b'', ''c''] [] [] [] [])"
              "heap (initial_world ''h'' [''a''] [] [] [] [])"
              "heap (initial_world ''h'' [''b'', ''c''] [] [] [] [])"]
  by (simp add: initial_world_def)

text \<open>
  Claim C1, at the configuration with host \<^verbatim>\<open>h\<close> and the single SSH option \<^verbatim>\<open>a\<close>: the
  code hashes the bytes \<^verbatim>\<open>h|||||\<close>, in which the option does not occur, and the result
  differs from the FNV-1 hash of \<^verbatim>\<open>h|||||a\<close>, the bytes the specification describes.
\<close>

theorem Hash_omits_SSHOpts_example:
  "Hash (heap (initial_world ''h'' [''a''] [] [] [] []))
        (DefaultConfig (initial_world ''h'' [''a''] [] [] [] []))
     = Some (fst (Write New64 ''h|||||''))
   \<and> fst (Write New64 ''h|||||'') = 12692325526609684361
   \<and> Hash_spec (heap (initial_world ''h'' [''a''] [] [] [] []))
        (DefaultConfig (initial_world ''h'' [''a''] [] [] [] []))
     = 9145090699609435562"
  by (simp add: Hash_def Hash_spec_def initial_world_def fnv_defs)

theorem Hash_omits_SSHOpts_example_differs:
  "Hash (heap (initial_world ''h'' [''a''] [] [] [] []))
        (DefaultConfig (initial_world ''h'' [''a''] [] [] [] []))
     \<noteq> Some (Hash_spec (heap (initial_world ''h'' [''a''] [] [] [] []))
                (DefaultConfig (initial_world ''h'' [''a''] [] [] [] [])))"
  using Hash_omits_SSHOpts_example by simp

section \<open>What resolution leaves alone\<close>

text \<open>Resolution touches neither the client cache nor the record of library calls, and
  it assigns no field of the default configuration.\<close>

lemma make_strings_frame:
  "make_strings n w = (s, w') \<Longrightarrow>
     clientCache w' = clientCache w \<and> events w' = events w \<and> DefaultConfig w' = DefaultConfig w"
  by (auto simp: make_strings_def)

lemma NewConfig_frame:
  "NewConfig rd w = (rc, w') \<Longrightarrow>
     clientCache w' = clientCache w \<and> events w' = events w \<and> DefaultConfig w' = DefaultConfig w"
  by (auto simp: NewConfig_def make_strings_def Let_def split: list.splits)

lemma getConfig_frame:
  "getConfig d w = (config, w') \<Longrightarrow>
     clientCache w' = clientCache w \<and> events w' = events w \<and> DefaultConfig w' = DefaultConfig w"
  by (cases d) (auto simp: getConfig_def Let_def split: prod.splits if_splits dest: NewConfig_frame)

section \<open>What resolution writes\<close>

text \<open>The loop of \<^verbatim>\<open>NewConfig\<close> fills the fresh array with the override's options and
  touches no other array.\<close>

lemma assign_all_other: "b \<noteq> a \<Longrightarrow> assign_all h a i xs b = h b"
  by (induction xs arbitrary: h i) auto

lemma assign_all_same:
  "i + length xs \<le> length (h a) \<Longrightarrow>
     assign_all h a i xs a = take i (h a) @ xs @ drop (i + length xs) (h a)"
proof (induction xs arbitrary: h i)
  case Nil
  then show ?case by simp
next
  case (Cons s ss)
  from Cons.prems have i: "i < length (h a)" by simp
  have step: "assign_all (h(a := (h a)[i := s])) a (Suc i) ss a
          = take (Suc i) ((h a)[i := s]) @ ss @ drop (Suc i + length ss) ((h a)[i := s])"
    using Cons.prems Cons.IH [of "Suc i" "h(a := (h a)[i := s])"] by (simp add: fun_upd_def)
  show ?case
    using step i by (simp add: take_Suc_conv_app_nth)
qed

lemma assign_all_fresh:
  "assign_all (h(a := replicate (length xs) [])) a 0 xs = h(a := xs)"
proof
  fix b
  show "assign_all (h(a := replicate (length xs) [])) a 0 xs b = (h(a := xs)) b"
  proof (cases "b = a")
    case True
    then show ?thesis
      using assign_all_same [of 0 xs "h(a := replicate (length xs) [])" a] by simp
  next
    case False
    then show ?thesis by (simp add: assign_all_other)
  qed
qed

lemma NewConfig_override:
  assumes "override rd = ov # rest"
  shows "NewConfig rd w =
           (\<lparr>Host = host ov, SSHOpts = Slice (Suc (next_array w)) (length (ssh_opts ov)),
             Ca = ca_material ov, Cert = cert_material ov, Key = key_material ov,
             CertPath = cert_path ov\<rparr>,
            w\<lparr>heap := (heap w)(next_array w := [], Suc (next_array w) := ssh_opts ov),
               next_array := Suc (Suc (next_array w))\<rparr>)"
  using assms by (simp add: NewConfig_def make_strings_def Let_def assign_all_fresh)

lemma copy_self: "copy h s s = h"
  by (cases s) (auto simp: Let_def min_def)

lemma getConfig_override:
  assumes dflt: "SSHOpts (DefaultConfig w) = Slice a n" and fresh: "a < next_array w"
    and ov: "override rd = ov # rest" and g: "getConfig (Some rd) w = (config, w')"
  shows "SSHOpts config = Slice a n \<and> DefaultConfig w' = DefaultConfig w
       \<and> heap w' a = take (min n (length (ssh_opts ov))) (ssh_opts ov)
                      @ drop (min n (length (ssh_opts ov))) (heap w a)"
  using assms
  by (auto simp: getConfig_def NewConfig_override [OF ov] copy_self Let_def split: if_splits)

text \<open>The five scalar fields of the resolved configuration: the override's value where
  it is non-empty, the default's otherwise.\<close>

lemma getConfig_scalars:
  assumes "getConfig d w = (config, w')"
  shows "Host config = (case d of None \<Rightarrow> Host (DefaultConfig w) | Some rd \<Rightarrow>
           (case override rd of [] \<Rightarrow> Host (DefaultConfig w)
            | ov # rest \<Rightarrow> if host ov \<noteq> [] then host ov else Host (DefaultConfig w)))"
    and "Ca config = (case d of None \<Rightarrow> Ca (DefaultConfig w) | Some rd \<Rightarrow>
           (case override rd of [] \<Rightarrow> Ca (DefaultConfig w)
            | ov # rest \<Rightarrow> if ca_material ov \<noteq> [] then ca_material ov else Ca (DefaultConfig w)))"
    and "Cert config = (case d of None \<Rightarrow> Cert (DefaultConfig w) | Some rd \<Rightarrow>
           (case override rd of [] \<Rightarrow> Cert (DefaultConfig w)
            | ov # rest \<Rightarrow> if cert_material ov \<noteq> [] then cert_material ov
                           else Cert (DefaultConfig w)))"
    and "Key config = (case d of None \<Rightarrow> Key (DefaultConfig w) | Some rd \<Rightarrow>
           (case override rd of [] \<Rightarrow> Key (DefaultConfig w)
            | ov # rest \<Rightarrow> if key_material ov \<noteq> [] then key_material ov
                           else Key (DefaultConfig w)))"
    and "CertPath config = (case d of None \<Rightarrow> CertPath (DefaultConfig w) | Some rd \<Rightarrow>
           (case override rd of [] \<Rightarrow> CertPath (DefaultConfig w)
            | ov # rest \<Rightarrow> if cert_path ov \<noteq> [] then cert_path ov
                           else CertPath (DefaultConfig w)))"
  using assms
  by (auto simp: getConfig_def NewConfig_def make_strings_def Let_def
           split: option.splits list.splits prod.splits if_splits)

text \<open>The cache key \<^verbatim>\<open>MakeClient\<close> computes is the same for two provider states that
  differ only in the SSH options of the default configuration.\<close>

lemma configHash_of_ignores_SSHOpts:
  assumes "Host (DefaultConfig v) = Host (DefaultConfig w)"
    and "Ca (DefaultConfig v) = Ca (DefaultConfig w)"
    and "Cert (DefaultConfig v) = Cert (DefaultConfig w)"
    and "Key (DefaultConfig v) = Key (DefaultConfig w)"
    and "CertPath (DefaultConfig v) = CertPath (DefaultConfig w)"
  shows "configHash_of d v = configHash_of d w"
proof -
  obtain cv v1 where gv: "getConfig d v = (cv, v1)"
    by (cases "getConfig d v")
  obtain cw w1 where gw: "getConfig d w = (cw, w1)"
    by (cases "getConfig d w")
  have "Host cv = Host cw" "Ca cv = Ca cw" "Cert cv = Cert cw" "Key cv = Key cw"
    "CertPath cv = CertPath cw"
    using getConfig_scalars [OF gv] getConfig_scalars [OF gw] assms
    by (simp_all split: option.splits list.splits)
  then show ?thesis
    using gv gw by (simp add: configHash_of_def Hash_eq)
qed

text \<open>
  Claim C3. The resolved configuration shares the backing array of the default's
  SSHOpts, and \<^verbatim>\<open>copy(config.SSHOpts, resourceConfig.SSHOpts)\<close> writes into it: after
  resolving with an override block, the first \<open>min n m\<close> elements of the default's list
  (\<open>n\<close> its length, \<open>m\<close> the number of options of the override) are the override's. With
  default options \<^verbatim>\<open>[a, b]\<close> and override options \<^verbatim>\<open>[x]\<close> the default's list is
  \<^verbatim>\<open>[x, b]\<close> after the call.
\<close>

theorem getConfig_overwrites_default_SSHOpts:
  assumes "SSHOpts (DefaultConfig w) = Slice a n" and "a < next_array w"
    and "override rd = ov # rest" and "getConfig (Some rd) w = (config, w')"
  shows "elems (heap w') (SSHOpts (DefaultConfig w')) =
           take (min n (length (ssh_opts ov))) (ssh_opts ov)
           @ drop (min n (length (ssh_opts ov))) (elems (heap w) (SSHOpts (DefaultConfig w)))"
  using getConfig_override [OF assms] assms(1) by (simp add: drop_take)

theorem getConfig_overwrites_default_SSHOpts_witness:
  "elems (heap (initial_world ''tcp://a'' [''a'', ''b''] [] [] [] []))
         (SSHOpts (DefaultConfig (initial_world ''tcp://a'' [''a'', ''b''] [] [] [] [])))
     = [''a'', ''b'']
   \<and> elems (heap (snd (getConfig (Some (ssh_override [''x'']))
                         (initial_world ''tcp://a'' [''a'', ''b''] [] [] [] []))))
           (SSHOpts (DefaultConfig (snd (getConfig (Some (ssh_override [''x'']))
                         (initial_world ''tcp://a'' [''a'', ''b''] [] [] [] [])))))
     = [''x'', ''b'']"
proof -
  let ?w = "initial_world ''tcp://a'' [''a'', ''b''] [] [] [] []"
  let ?rd = "ssh_override [''x'']"
  have s: "SSHOpts (DefaultConfig ?w) = Slice 0 2"
    by (simp add: initial_world_def)
  have f: "0 < next_array ?w"
    by (simp add: initial_world_def)
  have o: "override ?rd = hd (override ?rd) # []"
    by (simp add: ssh_override_def)
  have g: "getConfig (Some ?rd) ?w = (fst (getConfig (Some ?rd) ?w), snd (getConfig (Some ?rd) ?w))"
    by simp
  have before: "elems (heap ?w) (SSHOpts (DefaultConfig ?w)) = [''a'', ''b'']"
    by (simp add: initial_world_def)
  from getConfig_overwrites_default_SSHOpts [OF s f o g] before show ?thesis
    by (simp add: ssh_override_def)
qed

text \<open>
  Claim C4. The resolved configuration with an override block: each scalar field is the
  override's value if that is non-empty and the default's otherwise; the SSHOpts field
  is the default's slice header, whose elements are the override's options written over
  the default's, position by position, up to the default's length. Default \<^verbatim>\<open>[a, b]\<close> and
  override \<^verbatim>\<open>[x]\<close> resolve to \<^verbatim>\<open>[x, b]\<close>; an empty default and override \<^verbatim>\<open>[x]\<close> resolve
  to the empty list.
\<close>

theorem getConfig_resolved_fields:
  assumes "SSHOpts (DefaultConfig w) = Slice a n" and "a < next_array w"
    and "override rd = ov # rest" and "getConfig (Some rd) w = (config, w')"
  shows "Host config = (if host ov \<noteq> [] then host ov else Host (DefaultConfig w))
       \<and> Ca config = (if ca_material ov \<noteq> [] then ca_material ov else Ca (DefaultConfig w))
       \<and> Cert config = (if cert_material ov \<noteq> [] then cert_material ov else Cert (DefaultConfig w))
       \<and> Key config = (if key_material ov \<noteq> [] then key_material ov else Key (DefaultConfig w))
       \<and> CertPath config = (if cert_path ov \<noteq> [] then cert_path ov else CertPath (DefaultConfig w))
       \<and> SSHOpts config = SSHOpts (DefaultConfig w)
       \<and> elems (heap w') (SSHOpts config) =
           take (min n (length (ssh_opts ov))) (ssh_opts ov)
           @ drop (min n (length (ssh_opts ov))) (elems (heap w) (SSHOpts (DefaultConfig w)))"
  using getConfig_override [OF assms] getConfig_scalars [OF assms(4)] assms(1,3)
  by (simp add: drop_take)

theorem getConfig_resolved_fields_witness:
  "elems (heap (snd (getConfig (Some (ssh_override [''x'']))
                       (initial_world ''tcp://a'' [''a'', ''b''] [] [] [] []))))
         (SSHOpts (fst (getConfig (Some (ssh_override [''x'']))
                       (initial_world ''tcp://a'' [''a'', ''b''] [] [] [] []))))
     = [''x'', ''b'']
   \<and> elems (heap (snd (getConfig (Some (ssh_override [''x'']))
                       (initial_world ''tcp://a'' [] [] [] [] []))))
         (SSHOpts (fst (getConfig (Some (ssh_override [''x'']))
                       (initial_world ''tcp://a'' [] [] [] [] []))))
     = []"
proof -
  let ?w = "initial_world ''tcp://a'' [''a'', ''b''] [] [] [] []"
  let ?v = "initial_world ''tcp://a'' [] [] [] [] []"
  let ?rd = "ssh_override [''x'']"
  have sw: "SSHOpts (DefaultConfig ?w) = Slice 0 2" and sv: "SSHOpts (DefaultConfig ?v) = Slice 0 0"
    by (simp_all add: initial_world_def)
  have fw: "0 < next_array ?w" and fv: "0 < next_array ?v"
    by (simp_all add: initial_world_def)
  have o: "override ?rd = hd (override ?rd) # []"
    by (simp add: ssh_override_def)
  have gw: "getConfig (Some ?rd) ?w = (fst (getConfig (Some ?rd) ?w), snd (getConfig (Some ?rd) ?w))"
    and gv: "getConfig (Some ?rd) ?v = (fst (getConfig (Some ?rd) ?v), snd (getConfig (Some ?rd) ?v))"
    by simp_all
  have bw: "elems (heap ?w) (SSHOpts (DefaultConfig ?w)) = [''a'', ''b'']"
    and bv: "elems (heap ?v) (SSHOpts (DefaultConfig ?v)) = []"
    by (simp_all add: initial_world_def)
  have ov: "ssh_opts (hd (override ?rd)) = [''x'']"
    by (simp add: ssh_override_def)
  from getConfig_resolved_fields [OF sw fw o gw]
  have rw: "elems (heap (snd (getConfig (Some ?rd) ?w))) (SSHOpts (fst (getConfig (Some ?rd) ?w)))
              = take (min 2 (length (ssh_opts (hd (override ?rd))))) (ssh_opts (hd (override ?rd)))
                @ drop (min 2 (length (ssh_opts (hd (override ?rd)))))
                    (elems (heap ?w) (SSHOpts (DefaultConfig ?w)))"
    by blast
  from getConfig_resolved_fields [OF sv fv o gv]
  have rv: "elems (heap (snd (getConfig (Some ?rd) ?v))) (SSHOpts (fst (getConfig (Some ?rd) ?v)))
              = take (min 0 (length (ssh_opts (hd (override ?rd))))) (ssh_opts (hd (override ?rd)))
                @ drop (min 0 (length (ssh_opts (hd (override ?rd)))))
                    (elems (heap ?v) (SSHOpts (DefaultConfig ?v)))"
    by blast
  show ?thesis
    unfolding rw rv ov bw bv by simp
qed

section \<open>The TLS material loader\<close>

text \<open>
  Claim C9. With an empty (or nil) CA argument, and a certificate and key that parse
  whenever both are given, \<^verbatim>\<open>buildHTTPClientFromBytes\<close> returns a client, and the TLS
  configuration of its transport has \<^verbatim>\<open>InsecureSkipVerify\<close> set and no root CA pool.
\<close>

theorem buildHTTPClientFromBytes_empty_CA:
  assumes "blen caPEMCert = 0"
    and "\<forall>cert key. certPEMBlock = Some cert \<and> keyPEMBlock = Some key \<longrightarrow>
           (\<exists>tlsCert. X509KeyPair e cert key = Inr tlsCert)"
  shows "\<exists>httpClient tlsConfig.
           buildHTTPClientFromBytes e caPEMCert certPEMBlock keyPEMBlock = Inr httpClient
         \<and> TLSClientConfig (Transport httpClient) = Some tlsConfig
         \<and> InsecureSkipVerify tlsConfig \<and> RootCAs tlsConfig = None"
  using assms
  by (cases certPEMBlock; cases keyPEMBlock)
     (auto simp: buildHTTPClientFromBytes_def Let_def defaultTransport_def)

theorem buildHTTPClientFromBytes_empty_CA_witness:
  "(case buildHTTPClientFromBytes sample_env (bytes_of []) (bytes_of ''CERT'') (bytes_of ''KEY'') of
      Inl err \<Rightarrow> False
    | Inr httpClient \<Rightarrow>
        map_option InsecureSkipVerify (TLSClientConfig (Transport httpClient)) = Some True)"
proof -
  have a: "blen (bytes_of []) = 0"
    by (simp add: bytes_of_def)
  have b: "\<forall>cert key. bytes_of ''CERT'' = Some cert \<and> bytes_of ''KEY'' = Some key \<longrightarrow>
             (\<exists>tlsCert. X509KeyPair sample_env cert key = Inr tlsCert)"
    by (simp add: sample_env_def)
  from buildHTTPClientFromBytes_empty_CA [OF a b] show ?thesis
    by auto
qed

section \<open>The client cache\<close>

lemma MakeClient_hit:
  assumes "getConfig d w = (config, w1)" and "Hash (heap w1) config = Some k"
    and "clientCache w k = Some cached"
  shows "MakeClient e d w = (Return cached None, w1)"
  using assms getConfig_frame [OF assms(1)] by (simp add: MakeClient_def Load_def)

lemma MakeClient_hit_frame:
  assumes "configHash_of d w = Some k" and "clientCache w k = Some cached"
  shows "\<exists>w'. MakeClient e d w = (Return cached None, w')
              \<and> events w' = events w \<and> clientCache w' = clientCache w"
proof -
  obtain config w1 where g: "getConfig d w = (config, w1)"
    by (cases "getConfig d w")
  with assms(1) have h: "Hash (heap w1) config = Some k"
    by (simp add: configHash_of_def)
  from MakeClient_hit [OF g h assms(2)] getConfig_frame [OF g] show ?thesis
    by simp
qed

lemma call_NewClientWithOpts_frame:
  "call_NewClientWithOpts e opts w = (r, w') \<Longrightarrow>
     clientCache w' = clientCache w \<and> heap w' = heap w \<and> DefaultConfig w' = DefaultConfig w
     \<and> events w' = events w @ [CallNewClientWithOpts opts]"
  by (auto simp: call_NewClientWithOpts_def)

lemma build_client_frame:
  "build_client e config w = (b, w') \<Longrightarrow>
     clientCache w' = clientCache w \<and> heap w' = heap w \<and> DefaultConfig w' = DefaultConfig w
     \<and> (\<exists>evs. events w' = events w @ evs \<and> (\<forall>p. CallPing p \<notin> set evs))"
  by (auto simp: build_client_def Let_def call_NewClientWithOpts_def
           split: if_splits sum.splits option.splits prod.splits)

text \<open>What a call that misses the cache does with the outcome of the chain of branches.\<close>

lemma MakeClient_miss:
  assumes g: "getConfig d w = (config, w1)" and h: "Hash (heap w1) config = Some k"
    and miss: "clientCache w k = None" and bc: "build_client e config w1 = (b, w2)"
  shows "MakeClient e d w =
           (case b of
              EarlyReturn er \<Rightarrow> (Return None (Some er), w2)
            | Built dc (Some er) \<Rightarrow> (Return None (Some er), w2)
            | Built dc None \<Rightarrow>
                (case Ping e dc of
                   PingPanic \<Rightarrow> Panic
                 | PingFailed er \<Rightarrow>
                     Return None (Some (Error (''error pinging Docker server: '' @ message er)))
                 | PingOK \<Rightarrow> Return dc None,
                 w2\<lparr>clientCache := (clientCache w)(k \<mapsto> dc),
                    events := events w2 @ [CallPing dc]\<rparr>))"
proof -
  have c1: "clientCache w1 = clientCache w"
    using getConfig_frame [OF g] by simp
  have c2: "clientCache w2 = clientCache w1"
    using build_client_frame [OF bc] by simp
  show ?thesis
    using g h miss bc c1 c2
    by (simp add: MakeClient_def Load_def LoadOrStore_def Let_def
             split: built.splits option.splits ping_result.splits)
qed

text \<open>
  Claim C8. When the cache holds an entry under the fingerprint of the resolved
  configuration, \<^verbatim>\<open>MakeClient\<close> returns that entry with no error, whatever the libraries
  would do and whatever the TLS fields of the configuration are: no library call is
  recorded (no client is constructed, no ping is sent) and the cache is unchanged.
\<close>

theorem MakeClient_cache_hit:
  assumes "configHash_of d w = Some k" and "clientCache w k = Some cached"
  shows "\<exists>w'. MakeClient e d w = (Return cached None, w')
              \<and> events w' = events w \<and> clientCache w' = clientCache w"
  using assms by (rule MakeClient_hit_frame)

theorem MakeClient_cache_hit_witness:
  "fst (MakeClient broken_env None
          (snd (MakeClient sample_env None (initial_world ''tcp://d:2375'' [] [] [] [] []))))
     = Return (Some (Client 1)) None"
proof -
  let ?w = "snd (MakeClient sample_env None (initial_world ''tcp://d:2375'' [] [] [] [] []))"
  have k: "configHash_of None ?w = Some 10291203306629423471"
    by (simp add: run_defs)
  have c: "clientCache ?w 10291203306629423471 = Some (Some (Client 1))"
    by (simp add: run_defs)
  from MakeClient_cache_hit [OF k c, of broken_env] show ?thesis
    by auto
qed

text \<open>
  Claim C6. On a cache miss, with cert or key material set: if one of the two is empty
  the call returns no client and the error that both are required; if both are set and
  certPath is set too, it returns no client and the error that cert_path must not be
  specified. In both cases the world is the one resolution left: no library call is
  recorded and nothing is cached.
\<close>

theorem MakeClient_rejects_bad_tls_material:
  assumes "getConfig d w = (config, w1)" and "Hash (heap w1) config = Some k"
    and "clientCache w k = None" and "Cert config \<noteq> [] \<or> Key config \<noteq> []"
  shows "(Cert config = [] \<or> Key config = [] \<longrightarrow>
            MakeClient e d w =
              (Return None (Some (Error ''cert_material, and key_material must be specified'')), w1))
       \<and> (Cert config \<noteq> [] \<and> Key config \<noteq> [] \<and> CertPath config \<noteq> [] \<longrightarrow>
            MakeClient e d w = (Return None (Some (Error ''cert_path must not be specified'')), w1))
       \<and> events w1 = events w \<and> clientCache w1 = clientCache w"
  using assms getConfig_frame [OF assms(1)]
  by (auto simp: MakeClient_def Load_def build_client_def)

theorem MakeClient_rejects_bad_tls_material_witness:
  "fst (MakeClient sample_env None (initial_world ''tcp://d'' [] [] ''CERT'' [] []))
     = Return None (Some (Error ''cert_material, and key_material must be specified''))
   \<and> fst (MakeClient sample_env None (initial_world ''tcp://d'' [] [] ''CERT'' ''KEY'' ''/certs''))
     = Return None (Some (Error ''cert_path must not be specified''))"
proof -
  let ?w = "initial_world ''tcp://d'' [] [] ''CERT'' [] []"
  let ?v = "initial_world ''tcp://d'' [] [] ''CERT'' ''KEY'' ''/certs''"
  let ?cw = "fst (getConfig None ?w)" and ?w1 = "snd (getConfig None ?w)"
  let ?cv = "fst (getConfig None ?v)" and ?v1 = "snd (getConfig None ?v)"
  have g1: "getConfig None ?w = (?cw, ?w1)"
    by simp
  have h1: "Hash (heap ?w1) ?cw = Some 15456040270528450684"
    by (simp add: run_defs)
  have m1: "clientCache ?w 15456040270528450684 = None"
    by (simp add: initial_world_def)
  have t1: "Cert ?cw \<noteq> [] \<or> Key ?cw \<noteq> []"
    by (simp add: run_defs)
  have k1: "Cert ?cw = [] \<or> Key ?cw = []"
    by (simp add: run_defs)
  have g2: "getConfig None ?v = (?cv, ?v1)"
    by simp
  have h2: "Hash (heap ?v1) ?cv = Some 4688303770133240029"
    by (simp add: run_defs)
  have m2: "clientCache ?v 4688303770133240029 = None"
    by (simp add: initial_world_def)
  have t2: "Cert ?cv \<noteq> [] \<or> Key ?cv \<noteq> []"
    by (simp add: run_defs)
  have k2: "Cert ?cv \<noteq> [] \<and> Key ?cv \<noteq> [] \<and> CertPath ?cv \<noteq> []"
    by (simp add: run_defs)
  from MakeClient_rejects_bad_tls_material [OF g1 h1 m1 t1, of sample_env] k1
       MakeClient_rejects_bad_tls_material [OF g2 h2 m2 t2, of sample_env] k2
  show ?thesis by simp
qed

text \<open>
  Claim C7. If a call of \<^verbatim>\<open>MakeClient\<close> pings a client and the ping fails, the call
  returns no client and the ping error; the pinged client is nevertheless the cache
  entry under the fingerprint, and every later call whose resolved configuration has
  that fingerprint returns it with no error, records no library call and leaves the
  cache as it is.
\<close>

theorem MakeClient_failed_ping_keeps_entry:
  assumes run: "MakeClient e d w = (r, w')"
    and evs: "events w' = events w @ evs"
    and ping: "CallPing p \<in> set evs"
    and failed: "Ping e p = PingFailed err"
  shows "r = Return None (Some (Error (''error pinging Docker server: '' @ message err)))
       \<and> (\<exists>k. configHash_of d w = Some k \<and> clientCache w' k = Some p
            \<and> (\<forall>e2 d2. configHash_of d2 w' = Some k \<longrightarrow>
                 (\<exists>w''. MakeClient e2 d2 w' = (Return p None, w'')
                      \<and> events w'' = events w' \<and> clientCache w'' = clientCache w')))"
proof -
  obtain config w1 where g: "getConfig d w = (config, w1)"
    by (cases "getConfig d w")
  obtain k where h: "Hash (heap w1) config = Some k"
    using Hash_returns by blast
  have key: "configHash_of d w = Some k"
    using g h by (simp add: configHash_of_def)
  have e1: "events w1 = events w"
    using getConfig_frame [OF g] by simp
  have stored: "r = Return None (Some (Error (''error pinging Docker server: '' @ message err)))
                \<and> clientCache w' k = Some p"
  proof (cases "clientCache w k")
    case (Some cached)
    from MakeClient_hit [OF g h Some, of e] run have "w' = w1" by simp
    with evs e1 ping show ?thesis by simp
  next
    case None
    obtain b w2 where bc: "build_client e config w1 = (b, w2)"
      by (cases "build_client e config w1")
    from build_client_frame [OF bc] obtain evb where
      e2: "events w2 = events w1 @ evb" and noping: "\<forall>q. CallPing q \<notin> set evb"
      by blast
    note m = MakeClient_miss [OF g h None bc]
    show ?thesis
    proof (cases b)
      case (EarlyReturn er)
      with m run have "w' = w2" by simp
      with evs e1 e2 ping noping show ?thesis by simp
    next
      case (Built dc oerr)
      show ?thesis
      proof (cases oerr)
        case (Some er)
        with Built m run have "w' = w2" by simp
        with evs e1 e2 ping noping show ?thesis by simp
      next
        case None
        with Built m run have
          w': "w' = w2\<lparr>clientCache := (clientCache w)(k \<mapsto> dc),
                       events := events w2 @ [CallPing dc]\<rparr>"
          and r: "r = (case Ping e dc of
                         PingPanic \<Rightarrow> Panic
                       | PingFailed er \<Rightarrow>
                           Return None (Some (Error (''error pinging Docker server: '' @ message er)))
                       | PingOK \<Rightarrow> Return dc None)"
          by simp_all
        from w' evs e1 e2 have "evs = evb @ [CallPing dc]" by simp
        with ping noping have "p = dc" by auto
        with r failed w' show ?thesis by simp
      qed
    qed
  qed
  then have entry: "clientCache w' k = Some p" by simp
  have "\<forall>e2 d2. configHash_of d2 w' = Some k \<longrightarrow>
          (\<exists>w''. MakeClient e2 d2 w' = (Return p None, w'')
               \<and> events w'' = events w' \<and> clientCache w'' = clientCache w')"
    using MakeClient_hit_frame [OF _ entry] by blast
  with stored key show ?thesis by blast
qed

theorem MakeClient_failed_ping_keeps_entry_witness:
  "fst (MakeClient unreachable_env None (initial_world ''tcp://d:2375'' [] [] [] [] []))
     = Return None (Some (Error ''error pinging Docker server: daemon unreachable''))
   \<and> fst (MakeClient sample_env None
            (snd (MakeClient unreachable_env None (initial_world ''tcp://d:2375'' [] [] [] [] []))))
     = Return (Some (Client 1)) None"
proof -
  let ?w = "initial_world ''tcp://d:2375'' [] [] [] [] []"
  let ?r = "fst (MakeClient unreachable_env None ?w)"
  let ?w' = "snd (MakeClient unreachable_env None ?w)"
  have run: "MakeClient unreachable_env None ?w = (?r, ?w')"
    by simp
  have evs: "events ?w' = events ?w @
               [CallNewClientWithOpts [WithHost ''tcp://d:2375'', WithAPIVersionNegotiation],
                CallPing (Some (Client 1))]"
    by (simp add: run_defs unreachable_env_def)
  have ping: "CallPing (Some (Client 1)) \<in>
                set [CallNewClientWithOpts [WithHost ''tcp://d:2375'', WithAPIVersionNegotiation],
                     CallPing (Some (Client 1))]"
    by simp
  have failed: "Ping unreachable_env (Some (Client 1)) = PingFailed (Error ''daemon unreachable'')"
    by (simp add: unreachable_env_def)
  have k0: "configHash_of None ?w = Some 10291203306629423471"
    by (simp add: run_defs)
  have k1: "configHash_of None ?w' = Some 10291203306629423471"
    by (simp add: run_defs unreachable_env_def)
  from MakeClient_failed_ping_keeps_entry [OF run evs ping failed] obtain k where
    r: "?r = Return None (Some (Error (''error pinging Docker server: '' @
                                        message (Error ''daemon unreachable''))))"
    and k: "configHash_of None ?w = Some k"
    and again: "\<forall>e2 d2. configHash_of d2 ?w' = Some k \<longrightarrow>
                 (\<exists>w''. MakeClient e2 d2 ?w' = (Return (Some (Client 1)) None, w'')
                      \<and> events w'' = events ?w' \<and> clientCache w'' = clientCache ?w')"
    by blast
  from k k0 k1 have "configHash_of None ?w' = Some k"
    by simp
  with again obtain w'' where
    "MakeClient sample_env None ?w' = (Return (Some (Client 1)) None, w'')"
    by blast
  with r show ?thesis
    by simp
qed

section \<open>The SSH branch\<close>

text \<open>\<^verbatim>\<open>MakeClient\<close> never calls \<^verbatim>\<open>GetConnectionHelperWithSSHOpts\<close>, and its chain of
  branches reads only the five scalar fields of the configuration.\<close>

lemma buildHTTPClientFromBytes_env:
  "buildHTTPClientFromBytes (e\<lparr>GetConnectionHelperWithSSHOpts := f\<rparr>) a b c
     = buildHTTPClientFromBytes e a b c"
  by (simp add: buildHTTPClientFromBytes_def defaultTransport_def defaultPooledTransport_def Let_def
           cong: option.case_cong sum.case_cong if_cong)

lemma call_NewClientWithOpts_env:
  "call_NewClientWithOpts (e\<lparr>GetConnectionHelperWithSSHOpts := f\<rparr>) opts w
     = call_NewClientWithOpts e opts w"
  by (simp add: call_NewClientWithOpts_def)

lemma build_client_env:
  "build_client (e\<lparr>GetConnectionHelperWithSSHOpts := f\<rparr>) c w = build_client e c w"
  by (simp add: build_client_def buildHTTPClientFromBytes_env call_NewClientWithOpts_env Let_def
           cong: if_cong sum.case_cong option.case_cong)

lemma build_client_scalars:
  assumes "Host c = Host c'" and "Ca c = Ca c'" and "Cert c = Cert c'"
    and "Key c = Key c'" and "CertPath c = CertPath c'"
  shows "fst (build_client e c v) = fst (build_client e c' w)"
  using assms
  by (simp add: build_client_def call_NewClientWithOpts_def Let_def
           split: sum.splits option.splits)

text \<open>
  Claim C5. \<^verbatim>\<open>MakeClient\<close> resolves the SSH connection helper with
  \<^verbatim>\<open>connhelper.GetConnectionHelper(config.Host)\<close>, from the host alone: what it returns
  is the same for two provider states that differ only in the SSH options of the
  default configuration, and the same whatever \<^verbatim>\<open>GetConnectionHelperWithSSHOpts\<close> would
  answer. \<^verbatim>\<open>NewClient\<close> on the same configuration resolves the helper from the host and
  the SSH options.
\<close>

theorem MakeClient_ignores_SSHOpts:
  assumes cache: "clientCache v = clientCache w"
    and "Host (DefaultConfig v) = Host (DefaultConfig w)"
    and "Ca (DefaultConfig v) = Ca (DefaultConfig w)"
    and "Cert (DefaultConfig v) = Cert (DefaultConfig w)"
    and "Key (DefaultConfig v) = Key (DefaultConfig w)"
    and "CertPath (DefaultConfig v) = CertPath (DefaultConfig w)"
  shows "fst (MakeClient (e\<lparr>GetConnectionHelperWithSSHOpts := f\<rparr>) d v) = fst (MakeClient e d w)"
proof -
  let ?e = "e\<lparr>GetConnectionHelperWithSSHOpts := f\<rparr>"
  obtain cv v1 where gv: "getConfig d v = (cv, v1)"
    by (cases "getConfig d v")
  obtain cw w1 where gw: "getConfig d w = (cw, w1)"
    by (cases "getConfig d w")
  have sc: "Host cv = Host cw" "Ca cv = Ca cw" "Cert cv = Cert cw" "Key cv = Key cw"
    "CertPath cv = CertPath cw"
    using getConfig_scalars [OF gv] getConfig_scalars [OF gw] assms(2-6)
    by (simp_all split: option.splits list.splits)
  obtain k where hv: "Hash (heap v1) cv = Some k"
    using Hash_returns by blast
  with sc have hw: "Hash (heap w1) cw = Some k"
    by (simp add: Hash_eq)
  show ?thesis
  proof (cases "clientCache w k")
    case (Some cached)
    with cache have "clientCache v k = Some cached" by simp
    from MakeClient_hit [OF gv hv this] MakeClient_hit [OF gw hw Some] show ?thesis
      by simp
  next
    case None
    with cache have nv: "clientCache v k = None" by simp
    obtain bv v2 where bcv: "build_client ?e cv v1 = (bv, v2)"
      by (cases "build_client ?e cv v1")
    obtain bw w2 where bcw: "build_client e cw w1 = (bw, w2)"
      by (cases "build_client e cw w1")
    from build_client_scalars [OF sc, of e v1 w1] bcv bcw have b: "bv = bw"
      by (simp add: build_client_env)
    have "fst (MakeClient ?e d v) = fst (MakeClient e d w)"
      unfolding MakeClient_miss [OF gv hv nv bcv] MakeClient_miss [OF gw hw None bcw] b
      by (simp split: built.splits option.splits)
    then show ?thesis .
  qed
qed

theorem MakeClient_ignores_SSHOpts_witness:
  "fst (MakeClient ssh_env None (initial_world ''ssh://user@h'' [''-p'', ''2222''] [] [] [] []))
     = fst (MakeClient (ssh_env\<lparr>GetConnectionHelperWithSSHOpts := (\<lambda>h opts. Inl (Error ''bad option''))\<rparr>)
              None (initial_world ''ssh://user@h'' [] [] [] [] []))
   \<and> events (snd (MakeClient ssh_env None
                    (initial_world ''ssh://user@h'' [''-p'', ''2222''] [] [] [] [])))
     = [CallGetConnectionHelper ''ssh://user@h'',
        CallNewClientWithOpts [WithHost ''http://docker.example.com'', WithDialContext (DialFunc 0),
                               WithAPIVersionNegotiation],
        CallPing (Some (Client 1))]
   \<and> events (snd (NewClient ssh_env
                    (DefaultConfig (initial_world ''ssh://user@h'' [''-p'', ''2222''] [] [] [] []))
                    (initial_world ''ssh://user@h'' [''-p'', ''2222''] [] [] [] [])))
     = [CallGetConnectionHelperWithSSHOpts ''ssh://user@h'' [''-p'', ''2222''],
        CallNewClientWithOpts [WithHost ''http://docker.example.com'', WithDialContext (DialFunc 2),
                               WithAPIVersionNegotiation]]"
proof -
  let ?w = "initial_world ''ssh://user@h'' [''-p'', ''2222''] [] [] [] []"
  let ?v = "initial_world ''ssh://user@h'' [] [] [] [] []"
  have "fst (MakeClient (ssh_env\<lparr>GetConnectionHelperWithSSHOpts := (\<lambda>h opts. Inl (Error ''bad option''))\<rparr>)
               None ?v)
          = fst (MakeClient ssh_env None ?w)"
    by (rule MakeClient_ignores_SSHOpts) (simp_all add: initial_world_def)
  moreover have "events (snd (MakeClient ssh_env None ?w))
     = [CallGetConnectionHelper ''ssh://user@h'',
        CallNewClientWithOpts [WithHost ''http://docker.example.com'', WithDialContext (DialFunc 0),
                               WithAPIVersionNegotiation],
        CallPing (Some (Client 1))]"
    by (simp add: run_defs ssh_env_def)
  moreover have "events (snd (NewClient ssh_env (DefaultConfig ?w) ?w))
     = [CallGetConnectionHelperWithSSHOpts ''ssh://user@h'' [''-p'', ''2222''],
        CallNewClientWithOpts [WithHost ''http://docker.example.com'', WithDialContext (DialFunc 2),
                               WithAPIVersionNegotiation]]"
    by (simp add: NewClient_def call_NewClientWithOpts_def initial_world_def ssh_env_def
                  sample_env_def Let_def)
  ultimately show ?thesis
    by simp
qed

text \<open>The sibling \<^verbatim>\<open>NewClient\<close> in the same situation: it constructs the direct client.\<close>

lemma NewClient_ssh_without_helper:
  assumes "Cert c = []" and "Key c = []" and "CertPath c = []"
    and "GetConnectionHelperWithSSHOpts e (Host c) (elems (heap w) (SSHOpts c)) = Inr None"
  shows "NewClient e c w =
           (case NewClientWithOpts e [WithHost (Host c), WithAPIVersionNegotiation] of
              Inl err \<Rightarrow> Return None (Some err)
            | Inr cl \<Rightarrow> Return (Some cl) None,
            w\<lparr>events := events w @
                 [CallGetConnectionHelperWithSSHOpts (Host c) (elems (heap w) (SSHOpts c)),
                  CallNewClientWithOpts [WithHost (Host c), WithAPIVersionNegotiation]]\<rparr>)"
  using assms
  by (simp add: NewClient_def call_NewClientWithOpts_def Let_def split: sum.splits)



end
